theory Spec2Isabelle
  imports Complex_Main
begin

text \<open>
  A model of the Spotify MCP server with OAuth sessions: the Token Store, the Auth Gate in
  front of every tool, the Session Registry and the HTTP endpoints, from the JavaScript
  source. The repository has two variants of this server. The one that creates its tools per
  session is modelled here with the source's names; of the other one, whose tools read the
  session id from the call context, the Auth Gate and the \<open>search-tracks\<close> tool are
  modelled under names that end in \<open>_001\<close>.
\<close>

section \<open>JavaScript values used by the server\<close>

text \<open>
  Strings are byte strings (UTF-8). A value that is a string or \<open>undefined\<close>/\<open>null\<close> is a
  \<open>string option\<close>. JavaScript tests presence by truthiness: \<open>undefined\<close> and the empty
  string are both falsy.
\<close>

definition truthy :: "string option \<Rightarrow> bool" where
  "truthy v = (case v of None \<Rightarrow> False | Some s \<Rightarrow> s \<noteq> [])"

text \<open>\<open>a || b\<close> on optional strings.\<close>

definition js_or :: "string option \<Rightarrow> string option \<Rightarrow> string option" where
  "js_or a b = (if truthy a then a else b)"

text \<open>A template literal \<open>${v}\<close> prints \<open>undefined\<close> for an absent value.\<close>

definition template :: "string option \<Rightarrow> string" where
  "template v = (case v of None \<Rightarrow> ''undefined'' | Some s \<Rightarrow> s)"

definition nl :: string where
  "nl = [CHR 0x0A]"

text \<open>\<open>String.prototype.includes\<close>.\<close>

fun starts_with :: "string \<Rightarrow> string \<Rightarrow> bool" where
  "starts_with s [] = True"
| "starts_with [] (p # ps) = False"
| "starts_with (c # cs) (p # ps) = (c = p \<and> starts_with cs ps)"

fun includes_str :: "string \<Rightarrow> string \<Rightarrow> bool" where
  "includes_str [] p = (p = [])"
| "includes_str (c # cs) p = (starts_with (c # cs) p \<or> includes_str cs p)"

text \<open>\<open>String.prototype.replace\<close> with a string pattern: the first occurrence only.\<close>

fun replace_first :: "string \<Rightarrow> string \<Rightarrow> string \<Rightarrow> string" where
  "replace_first [] p r = (if p = [] then r else [])"
| "replace_first (c # cs) p r =
     (if starts_with (c # cs) p then r @ drop (length p) (c # cs)
      else c # replace_first cs p r)"

section \<open>Data model\<close>

text \<open>
  The Token Record of one session, as \<open>exchangeCodeForTokens\<close> and
  \<open>refreshSpotifyToken\<close> build it. \<open>expiresAt\<close> is a number of milliseconds; \<open>None\<close>
  stands for the \<open>NaN\<close> that \<open>Date.now() + undefined * 1000\<close> gives. Times and
  lifetimes are integers; what is proved of a computed time is proved for safe integers,
  where JavaScript's numbers are exact.
\<close>

record token_record =
  accessToken :: "string option"
  refreshToken :: "string option"
  expiresAt :: "int option"

text \<open>The transport of the SDK: the server reads only its \<open>sessionId\<close>.\<close>

record transport =
  transport_sessionId :: "string option"

text \<open>A thrown \<open>Error\<close>: its message, and \<open>error.response?.status\<close> when it has one.\<close>

record js_error =
  message :: string
  response_status :: "nat option"

text \<open>\<open>new Error(m)\<close> has no \<open>response\<close> property.\<close>

definition Error :: "string \<Rightarrow> js_error" where
  "Error m = \<lparr>message = m, response_status = None\<rparr>"

text \<open>
  The JSON bodies Spotify answers with, by the fields the server reads. \<open>data.error\<close> is a
  string on the accounts service and an object with a \<open>message\<close> on the Web API.
\<close>

datatype error_value = ErrorString string | ErrorObject "string option"

record track =
  track_id :: string
  track_name :: string
  artists :: "string list"
  album_name :: string
  uri :: string

datatype tracks_value = TracksPage "track list option" | TracksArray "track list"

record json_data =
  access_token :: "string option"
  refresh_token :: "string option"
  expires_in :: "int option"
  error_description :: "string option"
  error :: "error_value option"
  tracks :: "tracks_value option"

text \<open>
  What the server sends upstream with \<open>fetch\<close>, by endpoint and parameters (the client
  credentials of the Basic header are the same in every token request and are left out).
\<close>

datatype http_request =
    TokenExchangeRequest string
  | TokenRefreshRequest "string option"
  | SearchRequest string string rat
  | RecommendationsRequest string "string list" rat

text \<open>
  What \<open>await fetch(...)\<close> followed by \<open>await response.json()\<close> gives: either of the two
  rejects with a message, or there is a status and a parsed body.
\<close>

datatype fetched = Rejected string | Response nat json_data

definition ok :: "nat \<Rightarrow> bool" where
  "ok status = (200 \<le> status \<and> status \<le> 299)"

record reply =
  elapsed :: nat
  outcome :: fetched

text \<open>
  Spotify is a parameter of the model: it answers a request knowing the requests made before,
  and takes \<open>elapsed\<close> milliseconds to do so.
\<close>

type_synonym spotify = "http_request list \<Rightarrow> http_request \<Rightarrow> reply"

text \<open>
  The process-wide state: the two maps, the clock read by \<open>Date.now()\<close>, and the log of the
  requests sent upstream. Request handlers are run one after the other.
\<close>

record server_state =
  transports :: "string \<rightharpoonup> transport"
  sessionTokens :: "string \<rightharpoonup> token_record"
  now :: int
  requests :: "http_request list"

definition fetch :: "spotify \<Rightarrow> http_request \<Rightarrow> server_state \<Rightarrow> fetched \<times> server_state" where
  "fetch sp req w =
     (let r = sp (requests w) req
      in (outcome r, w\<lparr>now := now w + int (elapsed r), requests := requests w @ [req]\<rparr>))"

section \<open>Token Store\<close>

definition isTokenExpired :: "token_record \<Rightarrow> server_state \<Rightarrow> bool" where
  "isTokenExpired tokens w =
     (case expiresAt tokens of
        None \<Rightarrow> True
      | Some e \<Rightarrow> if e = 0 then True else now w \<ge> e)"

text \<open>\<open>data.error_description || data.error\<close> inside a template literal.\<close>

definition error_text :: "json_data \<Rightarrow> string" where
  "error_text d =
     (if truthy (error_description d) then template (error_description d)
      else (case error d of
              None \<Rightarrow> ''undefined''
            | Some (ErrorString s) \<Rightarrow> s
            | Some (ErrorObject m) \<Rightarrow> ''[object Object]''))"

text \<open>
  The integers that a JavaScript number holds exactly (\<open>Number.isSafeInteger\<close>): those of
  magnitude below \<open>2 ^ 53\<close>, which is 9007199254740992.
\<close>

definition safe_integer :: "int \<Rightarrow> bool" where
  "safe_integer n = (- 9007199254740992 < n \<and> n < 9007199254740992)"

text \<open>
  \<open>Date.now() + data.expires_in * 1000\<close>. The code computes this in double precision. The
  product and the sum below are the code's values when the clock reading, the product and
  the sum are safe integers; beyond that range the code's result is rounded, and every
  property of the computed time is stated under that range condition.
\<close>

definition expiry :: "server_state \<Rightarrow> json_data \<Rightarrow> int option" where
  "expiry w d = (case expires_in d of None \<Rightarrow> None | Some e \<Rightarrow> Some (now w + e * 1000))"

definition exchangeCodeForTokens ::
  "spotify \<Rightarrow> string \<Rightarrow> server_state \<Rightarrow> (js_error + token_record) \<times> server_state" where
  "exchangeCodeForTokens sp code w =
     (case fetch sp (TokenExchangeRequest code) w of
        (Rejected m, w1) \<Rightarrow> (Inl (Error m), w1)
      | (Response status d, w1) \<Rightarrow>
          if \<not> ok status
          then (Inl (Error (''Token exchange failed: '' @ error_text d)), w1)
          else (Inr \<lparr>accessToken = access_token d,
                     refreshToken = refresh_token d,
                     expiresAt = expiry w1 d\<rparr>, w1))"

definition refreshSpotifyToken ::
  "spotify \<Rightarrow> token_record \<Rightarrow> server_state \<Rightarrow> (js_error + token_record) \<times> server_state" where
  "refreshSpotifyToken sp tokens w =
     (case fetch sp (TokenRefreshRequest (refreshToken tokens)) w of
        (Rejected m, w1) \<Rightarrow> (Inl (Error m), w1)
      | (Response status d, w1) \<Rightarrow>
          if \<not> ok status
          then (Inl (Error (''Token refresh failed: '' @ error_text d)), w1)
          else (Inr \<lparr>accessToken = access_token d,
                     refreshToken = js_or (refresh_token d) (refreshToken tokens),
                     expiresAt = expiry w1 d\<rparr>, w1))"

section \<open>Auth Gate\<close>

text \<open>The result is \<open>None\<close> for \<open>null\<close> (and for an access token that is \<open>undefined\<close>).\<close>

definition getValidAccessToken ::
  "spotify \<Rightarrow> string \<Rightarrow> server_state \<Rightarrow> string option \<times> server_state" where
  "getValidAccessToken sp sessionId w =
     (case sessionTokens w sessionId of
        None \<Rightarrow> (None, w)
      | Some tokens \<Rightarrow>
          if isTokenExpired tokens w
          then (case refreshSpotifyToken sp tokens w of
                  (Inr tokens', w1) \<Rightarrow>
                    (accessToken tokens',
                     w1\<lparr>sessionTokens := (sessionTokens w1)(sessionId \<mapsto> tokens')\<rparr>)
                | (Inl e, w1) \<Rightarrow>
                    (None, w1\<lparr>sessionTokens := (sessionTokens w1)(sessionId := None)\<rparr>))
          else (accessToken tokens, w))"

section \<open>Configuration and the authorization URL\<close>

text \<open>
  The environment of the process. The server exits at start-up unless the client id and
  secret are set; \<open>SPOTIFY_REDIRECT_URI\<close> is optional.
\<close>

record config =
  SPOTIFY_CLIENT_ID :: string
  SPOTIFY_CLIENT_SECRET :: string
  env_SPOTIFY_REDIRECT_URI :: "string option"

definition SPOTIFY_REDIRECT_URI :: "config \<Rightarrow> string" where
  "SPOTIFY_REDIRECT_URI cfg =
     template (js_or (env_SPOTIFY_REDIRECT_URI cfg) (Some ''http://localhost:8080/callback/spotify''))"

text \<open>
  \<open>URLSearchParams.toString()\<close>: the application/x-www-form-urlencoded serializer. Letters,
  digits and \<open>* - . _\<close> stay, a space becomes \<open>+\<close>, every other byte is percent-encoded.
\<close>

definition hex_digit :: "nat \<Rightarrow> char" where
  "hex_digit n = (if n < 16 then ''0123456789ABCDEF'' ! n else CHR ''?'')"

definition form_keeps :: "char \<Rightarrow> bool" where
  "form_keeps c =
     (let n = (of_char c :: nat)
      in (48 \<le> n \<and> n \<le> 57) \<or> (65 \<le> n \<and> n \<le> 90) \<or> (97 \<le> n \<and> n \<le> 122)
         \<or> c = CHR ''*'' \<or> c = CHR ''-'' \<or> c = CHR ''.'' \<or> c = CHR ''_'')"

definition form_encode_char :: "char \<Rightarrow> string" where
  "form_encode_char c =
     (if form_keeps c then [c]
      else if c = CHR '' '' then ''+''
      else [CHR ''%'', hex_digit ((of_char c :: nat) div 16), hex_digit ((of_char c :: nat) mod 16)])"

definition form_urlencode :: "string \<Rightarrow> string" where
  "form_urlencode s = concat (map form_encode_char s)"

definition getSpotifyAuthUrl :: "config \<Rightarrow> string \<Rightarrow> string" where
  "getSpotifyAuthUrl cfg sessionId =
     ''https://accounts.spotify.com/authorize?''
     @ ''response_type='' @ form_urlencode ''code''
     @ ''&client_id='' @ form_urlencode (SPOTIFY_CLIENT_ID cfg)
     @ ''&scope='' @ form_urlencode
         ''user-read-private user-read-email playlist-read-private playlist-modify-private playlist-modify-public''
     @ ''&redirect_uri='' @ form_urlencode (SPOTIFY_REDIRECT_URI cfg)
     @ ''&state='' @ form_urlencode sessionId"

section \<open>Tool results\<close>

datatype content_item = TextContent string

text \<open>\<open>isError\<close> is \<open>False\<close> where the source leaves the property out.\<close>

record tool_result =
  content :: "content_item list"
  isError :: bool

definition result_text :: "tool_result \<Rightarrow> string" where
  "result_text r = concat (map (\<lambda>c. case c of TextContent t \<Rightarrow> t) (content r))"

definition emoji_musical_note :: string where
  "emoji_musical_note = [CHR 0xF0, CHR 0x9F, CHR 0x8E, CHR 0xB5]"

definition emoji_locked_with_key :: string where
  "emoji_locked_with_key = [CHR 0xF0, CHR 0x9F, CHR 0x94, CHR 0x90]"

definition emoji_cross_mark :: string where
  "emoji_cross_mark = [CHR 0xE2, CHR 0x9D, CHR 0x8C]"

section \<open>Auth Gate of the session-scoped server\<close>

text \<open>
  \<open>process.env.SPOTIFY_REDIRECT_URI?.replace("/callback/spotify", "") || "http://localhost:8080"\<close>
\<close>

definition baseUrl :: "config \<Rightarrow> string" where
  "baseUrl cfg =
     template
       (js_or (case env_SPOTIFY_REDIRECT_URI cfg of
                 None \<Rightarrow> None
               | Some u \<Rightarrow> Some (replace_first u ''/callback/spotify'' []))
              (Some ''http://localhost:8080''))"

definition authUrl :: "config \<Rightarrow> string \<Rightarrow> string" where
  "authUrl cfg sessionId = baseUrl cfg @ ''/auth?session='' @ sessionId"

definition auth_required_result :: "config \<Rightarrow> string \<Rightarrow> tool_result" where
  "auth_required_result cfg sessionId =
     \<lparr>content = [TextContent
        (emoji_musical_note @ '' **Spotify Authentication Required**'' @ nl @ nl
         @ ''To use Spotify features, please visit:'' @ nl @ nl
         @ authUrl cfg sessionId @ nl @ nl
         @ ''This will redirect you to connect your Spotify account. After authentication, return here and try your request again.'')],
      isError = False\<rparr>"

definition auth_expired_result :: "config \<Rightarrow> string \<Rightarrow> tool_result" where
  "auth_expired_result cfg sessionId =
     \<lparr>content = [TextContent
        (emoji_locked_with_key @ '' **Spotify Authentication Expired**'' @ nl @ nl
         @ ''Your Spotify session has expired. Please visit:'' @ nl @ nl
         @ authUrl cfg sessionId @ nl @ nl
         @ ''After completing authentication, return here and try your request again.'')],
      isError = True\<rparr>"

definition api_error_result :: "js_error \<Rightarrow> tool_result" where
  "api_error_result e =
     \<lparr>content = [TextContent
        (emoji_cross_mark @ '' **Spotify API Error**'' @ nl @ nl @ message e)],
      isError = True\<rparr>"

text \<open>
  An \<open>apiCall\<close> is a closure of the tool: it gets the access token, may send requests
  upstream, and returns a tool result or throws.
\<close>

type_synonym apiCall = "string \<Rightarrow> server_state \<Rightarrow> (js_error + tool_result) \<times> server_state"

definition handleSpotifyTool ::
  "config \<Rightarrow> spotify \<Rightarrow> string \<Rightarrow> apiCall \<Rightarrow> server_state \<Rightarrow> tool_result \<times> server_state" where
  "handleSpotifyTool cfg sp sessionId apiCall w =
     (case getValidAccessToken sp sessionId w of
        (token, w1) \<Rightarrow>
          if \<not> truthy token then (auth_required_result cfg sessionId, w1)
          else (case apiCall (template token) w1 of
                  (Inr r, w2) \<Rightarrow> (r, w2)
                | (Inl e, w2) \<Rightarrow>
                    if response_status e = Some 401
                    then (auth_expired_result cfg sessionId,
                          w2\<lparr>sessionTokens := (sessionTokens w2)(sessionId := None)\<rparr>)
                    else (api_error_result e, w2)))"

section \<open>Auth Gate of the variant that links to Spotify directly\<close>

text \<open>
  This variant has no landing page: its prompts carry the authorization URL itself. Token
  resolution is the same function.
\<close>

definition auth_required_result_001 :: "config \<Rightarrow> string \<Rightarrow> tool_result" where
  "auth_required_result_001 cfg sessionId =
     \<lparr>content = [TextContent
        (''Please authenticate with Spotify by visiting this link:'' @ nl
         @ getSpotifyAuthUrl cfg sessionId @ nl @ nl
         @ ''After authentication, come back and try again.'')],
      isError = False\<rparr>"

definition auth_expired_result_001 :: "config \<Rightarrow> string \<Rightarrow> tool_result" where
  "auth_expired_result_001 cfg sessionId =
     \<lparr>content = [TextContent
        (''Authentication expired. Please authenticate again:'' @ nl
         @ getSpotifyAuthUrl cfg sessionId)],
      isError = True\<rparr>"

definition api_error_result_001 :: "js_error \<Rightarrow> tool_result" where
  "api_error_result_001 e =
     \<lparr>content = [TextContent (''Error: '' @ message e)], isError = True\<rparr>"

definition handleSpotifyTool_001 ::
  "config \<Rightarrow> spotify \<Rightarrow> string \<Rightarrow> apiCall \<Rightarrow> server_state \<Rightarrow> tool_result \<times> server_state" where
  "handleSpotifyTool_001 cfg sp sessionId apiCall w =
     (case getValidAccessToken sp sessionId w of
        (token, w1) \<Rightarrow>
          if \<not> truthy token then (auth_required_result_001 cfg sessionId, w1)
          else (case apiCall (template token) w1 of
                  (Inr r, w2) \<Rightarrow> (r, w2)
                | (Inl e, w2) \<Rightarrow>
                    if response_status e = Some 401
                    then (auth_expired_result_001 cfg sessionId,
                          w2\<lparr>sessionTokens := (sessionTokens w2)(sessionId := None)\<rparr>)
                    else (api_error_result_001 e, w2)))"

section \<open>Tools\<close>

text \<open>
  \<open>JSON.stringify(tracks, null, 2)\<close> on the track summaries the tools build (every
  property a string).
\<close>

definition lower_hex_digit :: "nat \<Rightarrow> char" where
  "lower_hex_digit n = (if n < 16 then ''0123456789abcdef'' ! n else CHR ''?'')"

definition json_escape_char :: "char \<Rightarrow> string" where
  "json_escape_char c =
     (if c = CHR 0x22 then [CHR 0x5C, CHR 0x22]
      else if c = CHR 0x5C then [CHR 0x5C, CHR 0x5C]
      else if c = CHR 0x08 then [CHR 0x5C, CHR ''b'']
      else if c = CHR 0x0C then [CHR 0x5C, CHR ''f'']
      else if c = CHR 0x0A then [CHR 0x5C, CHR ''n'']
      else if c = CHR 0x0D then [CHR 0x5C, CHR ''r'']
      else if c = CHR 0x09 then [CHR 0x5C, CHR ''t'']
      else if (of_char c :: nat) < 32
        then [CHR 0x5C, CHR ''u'', CHR ''0'', CHR ''0'',
              lower_hex_digit ((of_char c :: nat) div 16), lower_hex_digit ((of_char c :: nat) mod 16)]
      else [c])"

definition json_string :: "string \<Rightarrow> string" where
  "json_string s = [CHR 0x22] @ concat (map json_escape_char s) @ [CHR 0x22]"

fun join :: "string \<Rightarrow> string list \<Rightarrow> string" where
  "join sep [] = []"
| "join sep [x] = x"
| "join sep (x # y # ys) = x @ sep @ join sep (y # ys)"

definition json_property :: "string \<Rightarrow> string \<Rightarrow> string" where
  "json_property k v = ''    '' @ json_string k @ '': '' @ json_string v"

text \<open>
  The summary \<open>{id, name, artist, album, uri}\<close> of a track, printed; the artists' names are
  joined with a comma and a space.
\<close>

definition stringify_track :: "track \<Rightarrow> string" where
  "stringify_track t =
     ''  {'' @ nl
     @ join ('','' @ nl)
         [json_property ''id'' (track_id t),
          json_property ''name'' (track_name t),
          json_property ''artist'' (join '', '' (artists t)),
          json_property ''album'' (album_name t),
          json_property ''uri'' (uri t)]
     @ nl @ ''  }''"

definition stringify_tracks :: "track list \<Rightarrow> string" where
  "stringify_tracks ts =
     (if ts = [] then ''[]''
      else ''['' @ nl @ join ('','' @ nl) (map stringify_track ts) @ nl @ '']'')"

text \<open>\<open>data.error?.message || "Unknown error"\<close>\<close>

definition api_error_message :: "json_data \<Rightarrow> string" where
  "api_error_message d =
     template
       (js_or (case error d of
                 None \<Rightarrow> None
               | Some (ErrorString s) \<Rightarrow> None
               | Some (ErrorObject m) \<Rightarrow> m)
              (Some ''Unknown error''))"

definition tracks_result :: "track list \<Rightarrow> tool_result" where
  "tracks_result ts = \<lparr>content = [TextContent (stringify_tracks ts)], isError = False\<rparr>"

text \<open>
  The closure \<open>search-tracks\<close> passes to \<open>handleSpotifyTool\<close>. A response that is not ok
  is thrown as a plain \<open>Error\<close>; a body without \<open>tracks.items\<close> makes the runtime throw
  a \<open>TypeError\<close>.
\<close>

definition search_tracks_apiCall :: "spotify \<Rightarrow> string \<Rightarrow> rat \<Rightarrow> apiCall" where
  "search_tracks_apiCall sp query limit token w =
     (case fetch sp (SearchRequest token query limit) w of
        (Rejected m, w1) \<Rightarrow> (Inl (Error m), w1)
      | (Response status d, w1) \<Rightarrow>
          if \<not> ok status
          then (Inl (Error (''Spotify API error: '' @ api_error_message d)), w1)
          else (case tracks d of
                  Some (TracksPage (Some ts)) \<Rightarrow> (Inr (tracks_result ts), w1)
                | Some (TracksPage None) \<Rightarrow>
                    (Inl (Error ''Cannot read properties of undefined (reading 'map')''), w1)
                | Some (TracksArray ts) \<Rightarrow>
                    (Inl (Error ''Cannot read properties of undefined (reading 'map')''), w1)
                | None \<Rightarrow>
                    (Inl (Error ''Cannot read properties of undefined (reading 'items')''), w1)))"

text \<open>The closure of \<open>get-recommendations\<close>: the seed list is checked before any request.\<close>

definition get_recommendations_apiCall :: "spotify \<Rightarrow> string list \<Rightarrow> rat \<Rightarrow> apiCall" where
  "get_recommendations_apiCall sp seedTracks limit token w =
     (if length seedTracks = 0 then (Inl (Error ''At least one seed track is required''), w)
      else (case fetch sp (RecommendationsRequest token seedTracks limit) w of
              (Rejected m, w1) \<Rightarrow> (Inl (Error m), w1)
            | (Response status d, w1) \<Rightarrow>
                if \<not> ok status
                then (Inl (Error (''Spotify API error: '' @ api_error_message d)), w1)
                else (case tracks d of
                        Some (TracksArray ts) \<Rightarrow> (Inr (tracks_result ts), w1)
                      | Some (TracksPage p) \<Rightarrow>
                          (Inl (Error ''data.tracks.map is not a function''), w1)
                      | None \<Rightarrow>
                          (Inl (Error ''Cannot read properties of undefined (reading 'map')''), w1))))"

text \<open>
  The input schemas. An argument that is left out is \<open>None\<close>; \<open>z.number()\<close> takes any
  number, not only integers. The result is the parsed arguments, or \<open>None\<close> when the
  arguments are rejected.
\<close>

definition search_tracks_inputSchema :: "string option \<Rightarrow> rat option \<Rightarrow> (string \<times> rat) option" where
  "search_tracks_inputSchema query limit =
     (case query of
        None \<Rightarrow> None
      | Some q \<Rightarrow>
          (let l = (case limit of None \<Rightarrow> 10 | Some l \<Rightarrow> l)
           in if 1 \<le> l \<and> l \<le> 50 then Some (q, l) else None))"

definition get_recommendations_inputSchema ::
  "string list option \<Rightarrow> rat option \<Rightarrow> (string list \<times> rat) option" where
  "get_recommendations_inputSchema seedTracks limit =
     (case seedTracks of
        None \<Rightarrow> None
      | Some seeds \<Rightarrow>
          if length seeds \<le> 5
          then (let l = (case limit of None \<Rightarrow> 20 | Some l \<Rightarrow> l)
                in if 1 \<le> l \<and> l \<le> 100 then Some (seeds, l) else None)
          else None)"

text \<open>
  A tool call: the SDK checks the arguments against the schema and runs the tool's callback
  only when they pass.
\<close>

datatype tool_outcome = InvalidArguments | ToolResult tool_result

definition search_tracks ::
  "config \<Rightarrow> spotify \<Rightarrow> string \<Rightarrow> string option \<Rightarrow> rat option \<Rightarrow> server_state
     \<Rightarrow> tool_outcome \<times> server_state" where
  "search_tracks cfg sp sessionId query limit w =
     (case search_tracks_inputSchema query limit of
        None \<Rightarrow> (InvalidArguments, w)
      | Some (q, l) \<Rightarrow>
          (case handleSpotifyTool cfg sp sessionId (search_tracks_apiCall sp q l) w of
             (r, w1) \<Rightarrow> (ToolResult r, w1)))"

text \<open>In the other variant the session id is \<open>context.sessionId\<close>.\<close>

definition search_tracks_001 ::
  "config \<Rightarrow> spotify \<Rightarrow> string \<Rightarrow> string option \<Rightarrow> rat option \<Rightarrow> server_state
     \<Rightarrow> tool_outcome \<times> server_state" where
  "search_tracks_001 cfg sp sessionId query limit w =
     (case search_tracks_inputSchema query limit of
        None \<Rightarrow> (InvalidArguments, w)
      | Some (q, l) \<Rightarrow>
          (case handleSpotifyTool_001 cfg sp sessionId (search_tracks_apiCall sp q l) w of
             (r, w1) \<Rightarrow> (ToolResult r, w1)))"

definition get_recommendations ::
  "config \<Rightarrow> spotify \<Rightarrow> string \<Rightarrow> string list option \<Rightarrow> rat option \<Rightarrow> server_state
     \<Rightarrow> tool_outcome \<times> server_state" where
  "get_recommendations cfg sp sessionId seedTracks limit w =
     (case get_recommendations_inputSchema seedTracks limit of
        None \<Rightarrow> (InvalidArguments, w)
      | Some (seeds, l) \<Rightarrow>
          (case handleSpotifyTool cfg sp sessionId (get_recommendations_apiCall sp seeds l) w of
             (r, w1) \<Rightarrow> (ToolResult r, w1)))"

section \<open>Session Registry\<close>

text \<open>
  \<open>transport.close()\<close> is the SDK's; an exception it throws is caught and logged, and the
  entry is deleted either way. Closing is taken to change neither map by itself.
\<close>

definition cleanupSession :: "string \<Rightarrow> server_state \<Rightarrow> server_state" where
  "cleanupSession sessionId w =
     (let w1 = (case transports w sessionId of
                  None \<Rightarrow> w
                | Some transport \<Rightarrow> w\<lparr>transports := (transports w)(sessionId := None)\<rparr>)
      in w1\<lparr>sessionTokens := (sessionTokens w1)(sessionId := None)\<rparr>)"

text \<open>The \<open>onclose\<close> callback the POST handler installs on a new transport.\<close>

definition onclose :: "transport \<Rightarrow> server_state \<Rightarrow> server_state" where
  "onclose transport w =
     (if truthy (transport_sessionId transport)
      then cleanupSession (template (transport_sessionId transport)) w
      else w)"

section \<open>HTTP endpoints\<close>

text \<open>
  The body of a response: a text, the JSON-RPC error object \<open>{jsonrpc, error: {code,
  message}, id: null}\<close>, the landing page with the link it shows, or the page shown after a
  successful connection.
\<close>

datatype http_body =
    PlainText string
  | JsonRpcError int string
  | AuthLandingPage string
  | ConnectedPage

record http_response =
  status_code :: nat
  body :: http_body

text \<open>\<open>GET /auth\<close>: the landing page links to the authorization URL of the session.\<close>

definition get_auth :: "config \<Rightarrow> string option \<Rightarrow> http_response" where
  "get_auth cfg session =
     (if \<not> truthy session then \<lparr>status_code = 400, body = PlainText ''Missing session ID''\<rparr>
      else \<lparr>status_code = 200, body = AuthLandingPage (getSpotifyAuthUrl cfg (template session))\<rparr>)"

text \<open>
  \<open>GET /callback/spotify\<close> with the query parameters \<open>code\<close>, \<open>state\<close> and \<open>error\<close>:
  the session id is the \<open>state\<close>.
\<close>

definition callback_spotify ::
  "spotify \<Rightarrow> string option \<Rightarrow> string option \<Rightarrow> string option \<Rightarrow> server_state
     \<Rightarrow> http_response \<times> server_state" where
  "callback_spotify sp code state err w =
     (if truthy err
      then (\<lparr>status_code = 400, body = PlainText (''Authentication error: '' @ template err)\<rparr>, w)
      else if \<not> truthy code \<or> \<not> truthy state
      then (\<lparr>status_code = 400, body = PlainText ''Missing authorization code or session ID''\<rparr>, w)
      else (case exchangeCodeForTokens sp (template code) w of
              (Inr tokens, w1) \<Rightarrow>
                (\<lparr>status_code = 200, body = ConnectedPage\<rparr>,
                 w1\<lparr>sessionTokens := (sessionTokens w1)(template state \<mapsto> tokens)\<rparr>)
            | (Inl e, w1) \<Rightarrow>
                (\<lparr>status_code = 500, body = PlainText (''Authentication error: '' @ message e)\<rparr>,
                 w1)))"

text \<open>
  A request to \<open>/mcp\<close>: the \<open>mcp-session-id\<close> header and whether the SDK's
  \<open>isInitializeRequest\<close> accepts the body.
\<close>

record mcp_request =
  mcp_session_id :: "string option"
  is_initialize :: bool

text \<open>
  What a call into the SDK's transport does is a parameter: it returns the response it wrote,
  or throws, having possibly written a response before, and it may change the state (a tool
  call goes through the Auth Gate; closing fires \<open>onclose\<close>).
\<close>

datatype sdk_outcome = Responded http_response | Threw js_error "http_response option"

record sdk =
  connect_error :: "js_error option"
  handleRequest :: "transport \<Rightarrow> mcp_request \<Rightarrow> server_state \<Rightarrow> sdk_outcome \<times> server_state"

definition bad_request :: http_response where
  "bad_request =
     \<lparr>status_code = 400, body = JsonRpcError (- 32000) ''Bad Request: No valid session ID provided''\<rparr>"

definition internal_error :: http_response where
  "internal_error = \<lparr>status_code = 500, body = JsonRpcError (- 32603) ''Internal server error''\<rparr>"

text \<open>
  The end of the POST handler: the request goes to the transport; an exception gives the
  500 response unless the headers are already sent.
\<close>

definition forward_request ::
  "sdk \<Rightarrow> transport \<Rightarrow> mcp_request \<Rightarrow> server_state \<Rightarrow> http_response \<times> server_state" where
  "forward_request k transport req w =
     (case handleRequest k transport req w of
        (Responded r, w1) \<Rightarrow> (r, w1)
      | (Threw e (Some r), w1) \<Rightarrow> (r, w1)
      | (Threw e None, w1) \<Rightarrow> (internal_error, w1))"

text \<open>\<open>POST /mcp\<close>; \<open>newSessionId\<close> is what \<open>randomUUID()\<close> returns in this request.\<close>

definition post_mcp ::
  "sdk \<Rightarrow> string \<Rightarrow> mcp_request \<Rightarrow> server_state \<Rightarrow> http_response \<times> server_state" where
  "post_mcp k newSessionId req w =
     (let sessionId = mcp_session_id req
      in case (if truthy sessionId then transports w (template sessionId) else None) of
           Some transport \<Rightarrow> forward_request k transport req w
         | None \<Rightarrow>
             if \<not> truthy sessionId \<and> is_initialize req
             then (case connect_error k of
                     Some e \<Rightarrow> (internal_error, w)
                   | None \<Rightarrow>
                       (let transport = \<lparr>transport_sessionId = None\<rparr>
                        in forward_request k transport req
                             (w\<lparr>transports := (transports w)(newSessionId \<mapsto> transport)\<rparr>)))
             else (bad_request, w))"

text \<open>
  \<open>DELETE /mcp\<close>: this handler has no \<open>try\<close>, so when the transport throws the clean-up
  after it is not reached, and the response is the one written before, if any.
\<close>

definition delete_mcp ::
  "sdk \<Rightarrow> mcp_request \<Rightarrow> server_state \<Rightarrow> http_response option \<times> server_state" where
  "delete_mcp k req w =
     (let sessionId = mcp_session_id req
      in case (if truthy sessionId then transports w (template sessionId) else None) of
           None \<Rightarrow>
             (Some \<lparr>status_code = 400, body = PlainText ''Invalid or missing session ID''\<rparr>, w)
         | Some transport \<Rightarrow>
             (case handleRequest k transport req w of
                (Responded r, w1) \<Rightarrow> (Some r, cleanupSession (template sessionId) w1)
              | (Threw e r, w1) \<Rightarrow> (r, w1)))"

section \<open>Destroying sessions\<close>

text \<open>
  The two ways a session is destroyed: the clean-up the DELETE handler calls with the
  session id, and the close notification of a transport.
\<close>

datatype destruction = ExplicitTermination string | CloseNotification transport

fun destroy :: "destruction \<Rightarrow> server_state \<Rightarrow> server_state" where
  "destroy (ExplicitTermination sessionId) w = cleanupSession sessionId w"
| "destroy (CloseNotification transport) w = onclose transport w"

fun destroy_all :: "destruction list \<Rightarrow> server_state \<Rightarrow> server_state" where
  "destroy_all [] w = w"
| "destroy_all (d # ds) w = destroy_all ds (destroy d w)"

text \<open>Every session that has a Token Record has a transport.\<close>

definition no_orphaned_credentials :: "server_state \<Rightarrow> bool" where
  "no_orphaned_credentials w = (dom (sessionTokens w) \<subseteq> dom (transports w))"

fun is_recommendations_request :: "http_request \<Rightarrow> bool" where
  "is_recommendations_request (RecommendationsRequest token seeds limit) = True"
| "is_recommendations_request req = False"

section \<open>Example inputs\<close>

definition example_config :: config where
  "example_config =
     \<lparr>SPOTIFY_CLIENT_ID = ''client'', SPOTIFY_CLIENT_SECRET = ''secret'',
      env_SPOTIFY_REDIRECT_URI = None\<rparr>"

definition no_data :: json_data where
  "no_data =
     \<lparr>access_token = None, refresh_token = None, expires_in = None,
      error_description = None, error = None, tracks = None\<rparr>"

text \<open>A server that has just started: no session, no token, nothing sent.\<close>

definition fresh_state :: server_state where
  "fresh_state = \<lparr>transports = Map.empty, sessionTokens = Map.empty, now = 1000, requests = []\<rparr>"

text \<open>Session \<open>s1\<close> is connected and holds a token that is good until 5000.\<close>

definition valid_record :: token_record where
  "valid_record = \<lparr>accessToken = Some ''T1'', refreshToken = Some ''R1'', expiresAt = Some 5000\<rparr>"

definition valid_state :: server_state where
  "valid_state =
     \<lparr>transports = [''s1'' \<mapsto> \<lparr>transport_sessionId = Some ''s1''\<rparr>],
      sessionTokens = [''s1'' \<mapsto> valid_record], now = 1000, requests = []\<rparr>"

text \<open>Session \<open>s2\<close> holds a token that ran out at 500.\<close>

definition expired_record :: token_record where
  "expired_record = \<lparr>accessToken = Some ''T1'', refreshToken = Some ''R1'', expiresAt = Some 500\<rparr>"

definition expired_state :: server_state where
  "expired_state =
     \<lparr>transports = [''s2'' \<mapsto> \<lparr>transport_sessionId = Some ''s2''\<rparr>],
      sessionTokens = [''s2'' \<mapsto> expired_record], now = 1000, requests = []\<rparr>"

text \<open>Spotify out of reach: every \<open>fetch\<close> rejects.\<close>

definition spotify_unreachable :: spotify where
  "spotify_unreachable hist req = \<lparr>elapsed = 5, outcome = Rejected ''network error''\<rparr>"

text \<open>Spotify answers every request with 401 and its usual error body.\<close>

definition spotify_unauthorized :: spotify where
  "spotify_unauthorized hist req =
     \<lparr>elapsed = 20,
      outcome = Response 401
        (no_data\<lparr>error := Some (ErrorObject (Some ''The access token expired''))\<rparr>)\<rparr>"

text \<open>Spotify answers every request with 500.\<close>

definition spotify_failing :: spotify where
  "spotify_failing hist req =
     \<lparr>elapsed = 20,
      outcome = Response 500 (no_data\<lparr>error := Some (ErrorObject (Some ''Server error''))\<rparr>)\<rparr>"

text \<open>The token endpoint grants a code exchange.\<close>

definition spotify_grants :: spotify where
  "spotify_grants hist req =
     \<lparr>elapsed = 30,
      outcome = Response 200
        (no_data\<lparr>access_token := Some ''T1'', refresh_token := Some ''R1'', expires_in := Some 3600\<rparr>)\<rparr>"

text \<open>The token endpoint refreshes: without a \<open>refresh_token\<close> in the body, and with a new one.\<close>

definition spotify_refreshes :: spotify where
  "spotify_refreshes hist req =
     \<lparr>elapsed = 20,
      outcome = Response 200 (no_data\<lparr>access_token := Some ''T2'', expires_in := Some 3600\<rparr>)\<rparr>"

definition spotify_rotates :: spotify where
  "spotify_rotates hist req =
     \<lparr>elapsed = 20,
      outcome = Response 200
        (no_data\<lparr>access_token := Some ''T2'', refresh_token := Some ''R2'', expires_in := Some 3600\<rparr>)\<rparr>"

text \<open>A closure that leaves a mark in the request log whenever it is invoked.\<close>

definition marking_apiCall :: apiCall where
  "marking_apiCall token w =
     (Inl (Error ''invoked''), w\<lparr>requests := requests w @ [SearchRequest token ''mark'' 1]\<rparr>)"

text \<open>An SDK whose transport answers 200 and fires the close notification.\<close>

definition sdk_closes :: sdk where
  "sdk_closes =
     \<lparr>connect_error = None,
      handleRequest =
        (\<lambda>transport req w. (Responded \<lparr>status_code = 200, body = PlainText []\<rparr>, onclose transport w))\<rparr>"

definition six_seeds :: "string list" where
  "six_seeds = [''a'', ''b'', ''c'', ''d'', ''e'', ''f'']"

section \<open>Basic facts\<close>

lemma starts_with_append: "starts_with (p @ s) p"
  by (induction p) simp_all

lemma starts_with_grow: "starts_with s p \<Longrightarrow> starts_with (s @ d) p"
  by (induction s p rule: starts_with.induct) simp_all

lemma includes_str_empty: "includes_str s []"
  by (cases s) simp_all

lemma includes_str_here: "includes_str (p @ s) p"
  using starts_with_append [of p s] by (cases "p @ s") auto

lemma includes_str_later: "includes_str s p \<Longrightarrow> includes_str (a @ s) p"
  by (induction a) simp_all

lemma includes_str_grow: "includes_str s p \<Longrightarrow> includes_str (s @ d) p"
proof (induction s)
  case Nil
  then show ?case by (simp add: includes_str_empty)
next
  case (Cons c s)
  then show ?case
    using starts_with_grow [of "c # s" p d] by auto
qed

lemma includes_str_inside: "includes_str (a @ p @ b) p"
  by (simp add: includes_str_later includes_str_here)

lemma includes_str_end: "includes_str (a @ p) p"
  using includes_str_inside [of a p "[]"] by simp

lemma includes_str_trans: "includes_str b c \<Longrightarrow> includes_str (a @ b @ d) c"
  by (simp add: includes_str_later includes_str_grow)

text \<open>A \<open>fetch\<close> adds its request to the log and touches neither map.\<close>

lemma requests_fetch: "requests (snd (fetch sp req w)) = requests w @ [req]"
  by (simp add: fetch_def Let_def)

lemma sessionTokens_fetch: "sessionTokens (snd (fetch sp req w)) = sessionTokens w"
  by (simp add: fetch_def Let_def)

lemma transports_fetch: "transports (snd (fetch sp req w)) = transports w"
  by (simp add: fetch_def Let_def)

lemma isTokenExpired_iff:
  "isTokenExpired tokens w \<longleftrightarrow>
     expiresAt tokens = None \<or> expiresAt tokens = Some 0
     \<or> (\<exists>e. expiresAt tokens = Some e \<and> e \<le> now w)"
  by (auto simp: isTokenExpired_def split: option.splits)

lemma refreshSpotifyToken_state:
  "snd (refreshSpotifyToken sp tokens w) = snd (fetch sp (TokenRefreshRequest (refreshToken tokens)) w)"
  by (simp add: refreshSpotifyToken_def split: prod.splits fetched.splits)

lemma now_fetch: "now (snd (fetch sp req w)) = now w + int (elapsed (sp (requests w) req))"
  by (simp add: fetch_def Let_def)

text \<open>Inside the range of the safe integers the expiry time is the exact sum.\<close>

lemma expiry_exact:
  assumes "expires_in d = Some e"
      and "safe_integer (now w)" and "safe_integer (e * 1000)" and "safe_integer (now w + e * 1000)"
  shows "expiry w d = Some (now w + e * 1000)"
  using assms by (simp add: expiry_def)

lemma refreshSpotifyToken_ok:
  assumes "outcome (sp (requests w) (TokenRefreshRequest (refreshToken tokens))) = Response status d"
      and "ok status"
  shows "fst (refreshSpotifyToken sp tokens w) =
           Inr \<lparr>accessToken = access_token d,
                refreshToken = js_or (refresh_token d) (refreshToken tokens),
                expiresAt = expiry (snd (fetch sp (TokenRefreshRequest (refreshToken tokens)) w)) d\<rparr>"
  using assms by (simp add: refreshSpotifyToken_def fetch_def Let_def)

lemma exchangeCodeForTokens_ok:
  assumes "outcome (sp (requests w) (TokenExchangeRequest c)) = Response status d" and "ok status"
  shows "exchangeCodeForTokens sp c w =
           (Inr \<lparr>accessToken = access_token d, refreshToken = refresh_token d,
                 expiresAt = expiry (snd (fetch sp (TokenExchangeRequest c) w)) d\<rparr>,
            snd (fetch sp (TokenExchangeRequest c) w))"
  using assms by (simp add: exchangeCodeForTokens_def fetch_def Let_def)

lemma getValidAccessToken_absent:
  "sessionTokens w sessionId = None \<Longrightarrow> getValidAccessToken sp sessionId w = (None, w)"
  by (simp add: getValidAccessToken_def)

lemma getValidAccessToken_valid:
  "sessionTokens w sessionId = Some tokens \<Longrightarrow> \<not> isTokenExpired tokens w \<Longrightarrow>
   getValidAccessToken sp sessionId w = (accessToken tokens, w)"
  by (simp add: getValidAccessToken_def)

lemma getValidAccessToken_expired:
  assumes "sessionTokens w sessionId = Some tokens" and "isTokenExpired tokens w"
  shows "getValidAccessToken sp sessionId w =
     (case refreshSpotifyToken sp tokens w of
        (Inr tokens', w1) \<Rightarrow>
          (accessToken tokens', w1\<lparr>sessionTokens := (sessionTokens w1)(sessionId \<mapsto> tokens')\<rparr>)
      | (Inl e, w1) \<Rightarrow> (None, w1\<lparr>sessionTokens := (sessionTokens w1)(sessionId := None)\<rparr>))"
  using assms by (simp add: getValidAccessToken_def)

text \<open>Token resolution sends nothing but token requests.\<close>

lemma getValidAccessToken_log:
  "filter is_recommendations_request (requests (snd (getValidAccessToken sp sessionId w)))
     = filter is_recommendations_request (requests w)"
  by (simp add: getValidAccessToken_def refreshSpotifyToken_def fetch_def Let_def
        split: option.splits prod.splits fetched.splits sum.splits)

lemma handleSpotifyTool_absent:
  "sessionTokens w sessionId = None \<Longrightarrow>
   handleSpotifyTool cfg sp sessionId apiCall w = (auth_required_result cfg sessionId, w)"
  by (simp add: handleSpotifyTool_def getValidAccessToken_absent truthy_def)

lemma handleSpotifyTool_001_absent:
  "sessionTokens w sessionId = None \<Longrightarrow>
   handleSpotifyTool_001 cfg sp sessionId apiCall w = (auth_required_result_001 cfg sessionId, w)"
  by (simp add: handleSpotifyTool_001_def getValidAccessToken_absent truthy_def)

text \<open>The \<open>catch\<close> block of \<open>handleSpotifyTool\<close>.\<close>

lemma handleSpotifyTool_catch:
  assumes "getValidAccessToken sp sessionId w = (Some token, w')" and "token \<noteq> []"
      and "apiCall token w' = (Inl e, w'')"
  shows "handleSpotifyTool cfg sp sessionId apiCall w =
           (if response_status e = Some 401
            then (auth_expired_result cfg sessionId,
                  w''\<lparr>sessionTokens := (sessionTokens w'')(sessionId := None)\<rparr>)
            else (api_error_result e, w''))"
  using assms by (simp add: handleSpotifyTool_def truthy_def template_def)

section \<open>Failures of the API call\<close>

text \<open>
  What the tools' closures throw is a plain \<open>Error\<close>, whatever the status of Spotify's
  answer, and they leave the Token Store alone.
\<close>

lemma search_tracks_apiCall_throws_plain:
  "search_tracks_apiCall sp q l token w = (Inl e, w') \<Longrightarrow> response_status e = None"
  by (auto simp: search_tracks_apiCall_def fetch_def Let_def Error_def
        split: fetched.splits if_splits option.splits tracks_value.splits)

lemma get_recommendations_apiCall_throws_plain:
  "get_recommendations_apiCall sp seeds l token w = (Inl e, w') \<Longrightarrow> response_status e = None"
  by (auto simp: get_recommendations_apiCall_def fetch_def Let_def Error_def
        split: fetched.splits if_splits option.splits tracks_value.splits)

lemma search_tracks_apiCall_store:
  "search_tracks_apiCall sp q l token w = (r, w') \<Longrightarrow> sessionTokens w' = sessionTokens w"
  by (auto simp: search_tracks_apiCall_def fetch_def Let_def
        split: fetched.splits if_splits option.splits tracks_value.splits)

lemma get_recommendations_apiCall_store:
  "get_recommendations_apiCall sp seeds l token w = (r, w') \<Longrightarrow> sessionTokens w' = sessionTokens w"
  by (auto simp: get_recommendations_apiCall_def fetch_def Let_def
        split: fetched.splits if_splits option.splits tracks_value.splits)

text \<open>
  An error that does carry \<open>response.status\<close> 401 is handled as the specification says:
  the record goes, and the result is an error with the link.
\<close>

lemma handleSpotifyTool_status_401:
  assumes "getValidAccessToken sp sessionId w = (Some token, w')" and "token \<noteq> []"
      and "apiCall token w' = (Inl e, w'')" and "response_status e = Some 401"
  shows "handleSpotifyTool cfg sp sessionId apiCall w =
           (auth_expired_result cfg sessionId,
            w''\<lparr>sessionTokens := (sessionTokens w'')(sessionId := None)\<rparr>)"
    and "isError (auth_expired_result cfg sessionId)"
    and "includes_str (result_text (auth_expired_result cfg sessionId)) (authUrl cfg sessionId)"
proof -
  show "handleSpotifyTool cfg sp sessionId apiCall w =
           (auth_expired_result cfg sessionId,
            w''\<lparr>sessionTokens := (sessionTokens w'')(sessionId := None)\<rparr>)"
    using handleSpotifyTool_catch [where apiCall = apiCall and cfg = cfg, OF assms(1,2,3)] assms(4)
    by simp
  show "isError (auth_expired_result cfg sessionId)"
    by (simp add: auth_expired_result_def)
  have "result_text (auth_expired_result cfg sessionId)
      = (emoji_locked_with_key @ '' **Spotify Authentication Expired**'' @ nl @ nl
         @ ''Your Spotify session has expired. Please visit:'' @ nl @ nl)
        @ authUrl cfg sessionId
        @ (nl @ nl @ ''After completing authentication, return here and try your request again.'')"
    by (simp add: auth_expired_result_def result_text_def)
  then show "includes_str (result_text (auth_expired_result cfg sessionId)) (authUrl cfg sessionId)"
    by (simp only: includes_str_inside)
qed

text \<open>
  With a record that has not expired, a search leaves the Token Store as it was on entry,
  whatever Spotify answers: no failure of the search removes or changes a record.
\<close>

lemma search_never_removes_record:
  assumes stored: "sessionTokens w sessionId = Some tokens" and fresh: "\<not> isTokenExpired tokens w"
  shows "sessionTokens (snd (handleSpotifyTool cfg sp sessionId (search_tracks_apiCall sp q l) w))
           = sessionTokens w"
proof (cases "truthy (accessToken tokens)")
  case False
  then show ?thesis
    by (simp add: handleSpotifyTool_def getValidAccessToken_valid [OF stored fresh])
next
  case True
  obtain r w' where call: "search_tracks_apiCall sp q l (template (accessToken tokens)) w = (r, w')"
    by (cases "search_tracks_apiCall sp q l (template (accessToken tokens)) w")
  have store: "sessionTokens w' = sessionTokens w"
    using search_tracks_apiCall_store [OF call] .
  show ?thesis
  proof (cases r)
    case (Inl e)
    with call have "response_status e = None"
      using search_tracks_apiCall_throws_plain by blast
    with True call Inl store show ?thesis
      by (simp add: handleSpotifyTool_def getValidAccessToken_valid [OF stored fresh])
  next
    case (Inr res)
    with True call store show ?thesis
      by (simp add: handleSpotifyTool_def getValidAccessToken_valid [OF stored fresh])
  qed
qed

text \<open>
  Claim C1, on the code. Session \<open>s1\<close> holds a valid Token Record and Spotify answers the
  search with HTTP 401. The closure of \<open>search-tracks\<close> throws a plain \<open>Error\<close> without a
  \<open>response\<close>, so the test \<open>error.response?.status === 401\<close> fails: the result is the
  generic API error, without a link, and the Token Record is still in the store.
\<close>

theorem unauthorized_search_keeps_record:
  "search_tracks example_config spotify_unauthorized ''s1'' (Some ''test'') (Some 10) valid_state
     = (ToolResult (api_error_result (Error ''Spotify API error: The access token expired'')),
        valid_state\<lparr>now := 1020, requests := [SearchRequest ''T1'' ''test'' 10]\<rparr>)
   \<and> sessionTokens
        (snd (search_tracks example_config spotify_unauthorized ''s1'' (Some ''test'') (Some 10) valid_state))
        ''s1'' = Some valid_record
   \<and> \<not> includes_str
          (result_text (api_error_result (Error ''Spotify API error: The access token expired'')))
          ''/auth?session=''"
proof -
  have resolved: "getValidAccessToken spotify_unauthorized ''s1'' valid_state = (Some ''T1'', valid_state)"
    by (simp add: getValidAccessToken_def valid_state_def valid_record_def isTokenExpired_def)
  have raised: "search_tracks_apiCall spotify_unauthorized ''test'' 10 ''T1'' valid_state
      = (Inl (Error ''Spotify API error: The access token expired''),
         valid_state\<lparr>now := 1020, requests := [SearchRequest ''T1'' ''test'' 10]\<rparr>)"
    by (simp add: search_tracks_apiCall_def fetch_def spotify_unauthorized_def ok_def
          api_error_message_def no_data_def js_or_def truthy_def template_def valid_state_def)
  have run: "handleSpotifyTool example_config spotify_unauthorized ''s1''
               (search_tracks_apiCall spotify_unauthorized ''test'' 10) valid_state
      = (api_error_result (Error ''Spotify API error: The access token expired''),
         valid_state\<lparr>now := 1020, requests := [SearchRequest ''T1'' ''test'' 10]\<rparr>)"
    using handleSpotifyTool_catch
            [where apiCall = "search_tracks_apiCall spotify_unauthorized ''test'' 10"
               and cfg = example_config, OF resolved _ raised]
    by (simp add: Error_def)
  have kept: "sessionTokens valid_state ''s1'' = Some valid_record"
    by (simp add: valid_state_def)
  have nolink: "\<not> includes_str
          (result_text (api_error_result (Error ''Spotify API error: The access token expired'')))
          ''/auth?session=''"
    by (simp add: result_text_def api_error_result_def Error_def nl_def emoji_cross_mark_def)
  show ?thesis
    using run kept nolink by (simp add: search_tracks_def search_tracks_inputSchema_def)
qed

text \<open>
  Claim C7. When token resolution gave a token and the closure throws an error that is not
  recognised as unauthorized, \<open>handleSpotifyTool\<close> returns the generic error result, which
  is marked as an error and carries the error's message, and it returns the state exactly as
  the closure left it: the handling removes and changes no Token Record.
\<close>

theorem other_failures_are_generic_errors:
  assumes resolved: "getValidAccessToken sp sessionId w = (Some token, w')" and ne: "token \<noteq> []"
      and raised: "apiCall token w' = (Inl e, w'')"
      and other: "response_status e \<noteq> Some 401"
  shows "handleSpotifyTool cfg sp sessionId apiCall w = (api_error_result e, w'')
       \<and> isError (api_error_result e)
       \<and> includes_str (result_text (api_error_result e)) (message e)
       \<and> sessionTokens (snd (handleSpotifyTool cfg sp sessionId apiCall w)) = sessionTokens w''"
proof -
  have run: "handleSpotifyTool cfg sp sessionId apiCall w = (api_error_result e, w'')"
    using handleSpotifyTool_catch [where apiCall = apiCall and cfg = cfg, OF resolved ne raised] other
    by simp
  have "result_text (api_error_result e)
          = (emoji_cross_mark @ '' **Spotify API Error**'' @ nl @ nl) @ message e"
    by (simp add: api_error_result_def result_text_def)
  then have carries: "includes_str (result_text (api_error_result e)) (message e)"
    by (simp only: includes_str_end)
  show ?thesis
    using run carries by (simp add: api_error_result_def)
qed

theorem other_failures_are_generic_errors_witness:
  "handleSpotifyTool example_config spotify_failing ''s1'' (search_tracks_apiCall spotify_failing ''test'' 10)
     valid_state
   = (api_error_result (Error ''Spotify API error: Server error''),
      valid_state\<lparr>now := 1020, requests := [SearchRequest ''T1'' ''test'' 10]\<rparr>)
   \<and> isError (api_error_result (Error ''Spotify API error: Server error''))
   \<and> includes_str (result_text (api_error_result (Error ''Spotify API error: Server error'')))
        ''Spotify API error: Server error''
   \<and> sessionTokens (snd (handleSpotifyTool example_config spotify_failing ''s1''
        (search_tracks_apiCall spotify_failing ''test'' 10) valid_state))
     = sessionTokens valid_state"
proof -
  have resolved: "getValidAccessToken spotify_failing ''s1'' valid_state = (Some ''T1'', valid_state)"
    by (simp add: getValidAccessToken_def valid_state_def valid_record_def isTokenExpired_def)
  have ne: "''T1'' \<noteq> []" by simp
  have raised: "search_tracks_apiCall spotify_failing ''test'' 10 ''T1'' valid_state
      = (Inl (Error ''Spotify API error: Server error''),
         valid_state\<lparr>now := 1020, requests := [SearchRequest ''T1'' ''test'' 10]\<rparr>)"
    by (simp add: search_tracks_apiCall_def fetch_def spotify_failing_def ok_def api_error_message_def
          no_data_def js_or_def truthy_def template_def valid_state_def)
  have other: "response_status (Error ''Spotify API error: Server error'') \<noteq> Some 401"
    by (simp add: Error_def)
  have msg: "message (Error ''Spotify API error: Server error'') = ''Spotify API error: Server error''"
    by (simp add: Error_def)
  from other_failures_are_generic_errors
         [where apiCall = "search_tracks_apiCall spotify_failing ''test'' 10" and cfg = example_config,
          OF resolved ne raised other] msg
  show ?thesis by simp
qed

section \<open>Sessions without a Token Record\<close>

text \<open>
  Claim C2. For a session id with no Token Record, \<open>getValidAccessToken\<close> returns \<open>null\<close>
  and \<open>handleSpotifyTool\<close> returns the authentication prompt, which is not marked as an
  error. The result and the state are the same for every \<open>apiCall\<close>, and the state is the
  one the call started in: the closure is not invoked and nothing is sent upstream.
\<close>

theorem no_record_gives_auth_prompt:
  assumes "sessionTokens w sessionId = None"
  shows "getValidAccessToken sp sessionId w = (None, w)
       \<and> handleSpotifyTool cfg sp sessionId apiCall w = (auth_required_result cfg sessionId, w)
       \<and> \<not> isError (auth_required_result cfg sessionId)
       \<and> requests (snd (handleSpotifyTool cfg sp sessionId apiCall w)) = requests w"
  using assms
  by (simp add: getValidAccessToken_absent handleSpotifyTool_absent auth_required_result_def)

theorem no_record_gives_auth_prompt_witness:
  "sessionTokens fresh_state ''s1'' = None
   \<and> getValidAccessToken spotify_unreachable ''s1'' fresh_state = (None, fresh_state)
   \<and> handleSpotifyTool example_config spotify_unreachable ''s1'' marking_apiCall fresh_state
       = (auth_required_result example_config ''s1'', fresh_state)
   \<and> \<not> isError (auth_required_result example_config ''s1'')
   \<and> requests (snd (handleSpotifyTool example_config spotify_unreachable ''s1'' marking_apiCall
         fresh_state)) = []"
proof -
  have absent: "sessionTokens fresh_state ''s1'' = None"
    by (simp add: fresh_state_def)
  have "requests fresh_state = []"
    by (simp add: fresh_state_def)
  with absent
    no_record_gives_auth_prompt [OF absent, of spotify_unreachable example_config marking_apiCall]
  show ?thesis by simp
qed

section \<open>Expired records and refresh\<close>

text \<open>
  Claim C3. For a stored Token Record whose \<open>expiresAt\<close> is unset or not after the current
  time, \<open>getValidAccessToken\<close> sends exactly one refresh request, with the stored refresh
  token, whatever the outcome. When \<open>refreshSpotifyToken\<close> returns a record, that record
  is stored for the session and its access token is returned; when it throws, the session's
  record is removed, \<open>null\<close> is returned, and no second request is sent.
\<close>

theorem expired_record_refreshed_once:
  assumes rec: "sessionTokens w sessionId = Some tokens"
      and expired: "expiresAt tokens = None \<or> (\<exists>e. expiresAt tokens = Some e \<and> e \<le> now w)"
  shows "requests (snd (getValidAccessToken sp sessionId w))
           = requests w @ [TokenRefreshRequest (refreshToken tokens)]
       \<and> (case fst (refreshSpotifyToken sp tokens w) of
             Inr tokens' \<Rightarrow>
               fst (getValidAccessToken sp sessionId w) = accessToken tokens'
               \<and> sessionTokens (snd (getValidAccessToken sp sessionId w))
                   = (sessionTokens w)(sessionId \<mapsto> tokens')
           | Inl e \<Rightarrow>
               fst (getValidAccessToken sp sessionId w) = None
               \<and> sessionTokens (snd (getValidAccessToken sp sessionId w))
                   = (sessionTokens w)(sessionId := None))"
proof -
  from expired have ex: "isTokenExpired tokens w"
    by (auto simp: isTokenExpired_iff)
  obtain r w1 where ref: "refreshSpotifyToken sp tokens w = (r, w1)"
    by (cases "refreshSpotifyToken sp tokens w")
  from ref have w1: "w1 = snd (fetch sp (TokenRefreshRequest (refreshToken tokens)) w)"
    using refreshSpotifyToken_state [of sp tokens w] by simp
  have log: "requests w1 = requests w @ [TokenRefreshRequest (refreshToken tokens)]"
    and store: "sessionTokens w1 = sessionTokens w"
    by (simp_all add: w1 requests_fetch sessionTokens_fetch)
  show ?thesis
    using getValidAccessToken_expired [OF rec ex, of sp] ref log store
    by (cases r) simp_all
qed

theorem expired_record_refreshed_once_witness:
  "sessionTokens expired_state ''s2'' = Some expired_record
   \<and> requests (snd (getValidAccessToken spotify_refreshes ''s2'' expired_state))
       = [TokenRefreshRequest (Some ''R1'')]
   \<and> fst (getValidAccessToken spotify_refreshes ''s2'' expired_state) = Some ''T2''
   \<and> sessionTokens (snd (getValidAccessToken spotify_refreshes ''s2'' expired_state)) ''s2''
       = Some \<lparr>accessToken = Some ''T2'', refreshToken = Some ''R1'', expiresAt = Some 3601020\<rparr>
   \<and> requests (snd (getValidAccessToken spotify_unreachable ''s2'' expired_state))
       = [TokenRefreshRequest (Some ''R1'')]
   \<and> fst (getValidAccessToken spotify_unreachable ''s2'' expired_state) = None
   \<and> sessionTokens (snd (getValidAccessToken spotify_unreachable ''s2'' expired_state)) ''s2'' = None"
proof -
  have stored: "sessionTokens expired_state ''s2'' = Some expired_record"
    by (simp add: expired_state_def)
  have past: "expiresAt expired_record = None
      \<or> (\<exists>e. expiresAt expired_record = Some e \<and> e \<le> now expired_state)"
    by (simp add: expired_record_def expired_state_def)
  have granted: "fst (refreshSpotifyToken spotify_refreshes expired_record expired_state)
      = Inr \<lparr>accessToken = Some ''T2'', refreshToken = Some ''R1'', expiresAt = Some 3601020\<rparr>"
    by (simp add: refreshSpotifyToken_def fetch_def spotify_refreshes_def ok_def js_or_def truthy_def
          expiry_def expired_state_def expired_record_def no_data_def)
  have refused: "fst (refreshSpotifyToken spotify_unreachable expired_record expired_state)
      = Inl (Error ''network error'')"
    by (simp add: refreshSpotifyToken_def fetch_def spotify_unreachable_def)
  have log: "requests expired_state = []" "refreshToken expired_record = Some ''R1''"
    by (simp_all add: expired_state_def expired_record_def)
  from expired_record_refreshed_once [OF stored past, of spotify_refreshes]
       expired_record_refreshed_once [OF stored past, of spotify_unreachable]
       stored granted refused log
  show ?thesis by simp
qed

text \<open>
  Claim C4. A session's record has expired and the refresh is answered with access token
  \<open>fresh\<close> and \<open>expires_in\<close> \<open>e\<close>; \<open>t\<close> is the clock reading when the answer has
  arrived, and \<open>t\<close>, \<open>e * 1000\<close> and their sum are safe integers. Then the record stored for
  the session has access token \<open>fresh\<close> and expires at \<open>t\<close> plus \<open>e\<close> seconds. Its
  refresh token is the prior one when the answer has no \<open>refresh_token\<close> field, and the
  answer's refresh token when it carries one (a non-empty string).
\<close>

theorem refresh_keeps_refresh_token_unless_replaced:
  assumes stored: "sessionTokens w sessionId = Some tokens"
      and expired: "isTokenExpired tokens w"
      and reply: "outcome (sp (requests w) (TokenRefreshRequest (refreshToken tokens))) = Response status d"
      and success: "ok status"
      and at: "access_token d = Some fresh"
      and exp: "expires_in d = Some e"
      and rt: "refresh_token d = None \<or> (\<exists>rotated. refresh_token d = Some rotated \<and> rotated \<noteq> [])"
      and clock: "t = now w + int (elapsed (sp (requests w) (TokenRefreshRequest (refreshToken tokens))))"
      and range: "safe_integer t" "safe_integer (e * 1000)" "safe_integer (t + e * 1000)"
  shows "sessionTokens (snd (getValidAccessToken sp sessionId w)) sessionId =
           Some \<lparr>accessToken = Some fresh,
                 refreshToken = (case refresh_token d of
                                   None \<Rightarrow> refreshToken tokens
                                 | Some rotated \<Rightarrow> Some rotated),
                 expiresAt = Some (t + e * 1000)\<rparr>"
proof -
  obtain r w1 where ref: "refreshSpotifyToken sp tokens w = (r, w1)"
    by (cases "refreshSpotifyToken sp tokens w")
  have kept: "js_or (refresh_token d) (refreshToken tokens) =
          (case refresh_token d of
             None \<Rightarrow> refreshToken tokens
           | Some rotated \<Rightarrow> Some rotated)"
    using rt by (auto simp: js_or_def truthy_def)
  have t: "now (snd (fetch sp (TokenRefreshRequest (refreshToken tokens)) w)) = t"
    by (simp add: now_fetch clock)
  have time: "expiry (snd (fetch sp (TokenRefreshRequest (refreshToken tokens)) w)) d
      = Some (t + e * 1000)"
    using expiry_exact [of d e "snd (fetch sp (TokenRefreshRequest (refreshToken tokens)) w)"]
      exp range t
    by simp
  from refreshSpotifyToken_ok [where sp = sp and w = w and tokens = tokens, OF reply success]
    ref at kept time
  have r: "r = Inr \<lparr>accessToken = Some fresh,
                 refreshToken = (case refresh_token d of
                                   None \<Rightarrow> refreshToken tokens
                                 | Some rotated \<Rightarrow> Some rotated),
                 expiresAt = Some (t + e * 1000)\<rparr>"
    by simp
  show ?thesis
    using getValidAccessToken_expired [OF stored expired, of sp] ref r by simp
qed

theorem refresh_keeps_refresh_token_unless_replaced_witness:
  "sessionTokens (snd (getValidAccessToken spotify_refreshes ''s2'' expired_state)) ''s2'' =
     Some \<lparr>accessToken = Some ''T2'', refreshToken = Some ''R1'', expiresAt = Some 3601020\<rparr>
   \<and> sessionTokens (snd (getValidAccessToken spotify_rotates ''s2'' expired_state)) ''s2'' =
     Some \<lparr>accessToken = Some ''T2'', refreshToken = Some ''R2'', expiresAt = Some 3601020\<rparr>"
proof -
  have stored: "sessionTokens expired_state ''s2'' = Some expired_record"
    by (simp add: expired_state_def)
  have expired: "isTokenExpired expired_record expired_state"
    by (simp add: isTokenExpired_def expired_state_def expired_record_def)
  have omitted:
    "outcome (spotify_refreshes (requests expired_state) (TokenRefreshRequest (refreshToken expired_record)))
       = Response 200 (no_data\<lparr>access_token := Some ''T2'', expires_in := Some 3600\<rparr>)"
    by (simp add: spotify_refreshes_def)
  have present:
    "outcome (spotify_rotates (requests expired_state) (TokenRefreshRequest (refreshToken expired_record)))
       = Response 200
           (no_data\<lparr>access_token := Some ''T2'', refresh_token := Some ''R2'', expires_in := Some 3600\<rparr>)"
    by (simp add: spotify_rotates_def)
  have success: "ok 200" by (simp add: ok_def)
  have at: "access_token (no_data\<lparr>access_token := Some ''T2'', expires_in := Some 3600\<rparr>) = Some ''T2''"
    "access_token (no_data\<lparr>access_token := Some ''T2'', refresh_token := Some ''R2'',
       expires_in := Some 3600\<rparr>) = Some ''T2''"
    by simp_all
  have exp: "expires_in (no_data\<lparr>access_token := Some ''T2'', expires_in := Some 3600\<rparr>) = Some 3600"
    "expires_in (no_data\<lparr>access_token := Some ''T2'', refresh_token := Some ''R2'',
       expires_in := Some 3600\<rparr>) = Some 3600"
    by simp_all
  have no_field: "refresh_token (no_data\<lparr>access_token := Some ''T2'', expires_in := Some 3600\<rparr>) = None
      \<or> (\<exists>rotated. refresh_token (no_data\<lparr>access_token := Some ''T2'', expires_in := Some 3600\<rparr>)
            = Some rotated \<and> rotated \<noteq> [])"
    by (simp add: no_data_def)
  have new_token: "refresh_token (no_data\<lparr>access_token := Some ''T2'', refresh_token := Some ''R2'',
         expires_in := Some 3600\<rparr>) = None
      \<or> (\<exists>rotated. refresh_token (no_data\<lparr>access_token := Some ''T2'', refresh_token := Some ''R2'',
            expires_in := Some 3600\<rparr>) = Some rotated \<and> rotated \<noteq> [])"
    by simp
  have clock1: "1020 = now expired_state
      + int (elapsed (spotify_refreshes (requests expired_state)
          (TokenRefreshRequest (refreshToken expired_record))))"
    by (simp add: expired_state_def spotify_refreshes_def)
  have clock2: "1020 = now expired_state
      + int (elapsed (spotify_rotates (requests expired_state)
          (TokenRefreshRequest (refreshToken expired_record))))"
    by (simp add: expired_state_def spotify_rotates_def)
  have range: "safe_integer 1020" "safe_integer (3600 * 1000)" "safe_integer (1020 + 3600 * 1000)"
    by (simp_all add: safe_integer_def)
  from refresh_keeps_refresh_token_unless_replaced
         [where sp = spotify_refreshes and t = 1020,
          OF stored expired omitted success at(1) exp(1) no_field clock1 range]
       refresh_keeps_refresh_token_unless_replaced
         [where sp = spotify_rotates and t = 1020,
          OF stored expired present success at(2) exp(2) new_token clock2 range]
  show ?thesis
    by (simp add: expired_record_def no_data_def)
qed

section \<open>The OAuth callback\<close>

text \<open>
  Claim C6. The callback has a code and a session id (the \<open>state\<close>) and no \<open>error\<close>
  parameter, and Spotify accepts the exchange declaring \<open>expires_in\<close> \<open>e\<close>; \<open>t\<close> is the
  clock reading when the response has arrived, and \<open>t\<close>, \<open>e * 1000\<close> and their sum are
  safe integers. Then the Token Store holds for that session id a record whose access token
  is the one of the exchange response and whose \<open>expiresAt\<close> is \<open>t\<close> plus \<open>e\<close> seconds
  (\<open>e * 1000\<close> milliseconds), and \<open>t\<close> lies within the call: it is the clock of the state
  the call ends in, and not before the clock it started with.
\<close>

theorem callback_stores_exchanged_tokens:
  assumes code: "code = Some c" "c \<noteq> []"
      and state: "state = Some sessionId" "sessionId \<noteq> []"
      and err: "\<not> truthy err"
      and reply: "outcome (sp (requests w) (TokenExchangeRequest c)) = Response status d"
      and success: "ok status"
      and exp: "expires_in d = Some e"
      and clock: "t = now w + int (elapsed (sp (requests w) (TokenExchangeRequest c)))"
      and range: "safe_integer t" "safe_integer (e * 1000)" "safe_integer (t + e * 1000)"
  shows "status_code (fst (callback_spotify sp code state err w)) = 200
       \<and> sessionTokens (snd (callback_spotify sp code state err w)) sessionId =
           Some \<lparr>accessToken = access_token d, refreshToken = refresh_token d,
                 expiresAt = Some (t + e * 1000)\<rparr>
       \<and> now (snd (callback_spotify sp code state err w)) = t
       \<and> now w \<le> t"
proof -
  have t: "now (snd (fetch sp (TokenExchangeRequest c) w)) = t"
    by (simp add: now_fetch clock)
  have time: "expiry (snd (fetch sp (TokenExchangeRequest c) w)) d = Some (t + e * 1000)"
    using expiry_exact [of d e "snd (fetch sp (TokenExchangeRequest c) w)"] exp range t
    by simp
  have within: "now w \<le> t"
    by (simp add: clock)
  show ?thesis
    using code state err time t within
    by (simp add: callback_spotify_def truthy_def template_def
          exchangeCodeForTokens_ok [where sp = sp and w = w and c = c, OF reply success])
qed

theorem callback_stores_exchanged_tokens_witness:
  "sessionTokens (snd (callback_spotify spotify_grants (Some ''code1'') (Some ''s1'') None fresh_state)) ''s1''
     = Some \<lparr>accessToken = Some ''T1'', refreshToken = Some ''R1'', expiresAt = Some 3601030\<rparr>
   \<and> now (snd (callback_spotify spotify_grants (Some ''code1'') (Some ''s1'') None fresh_state)) = 1030
   \<and> status_code (fst (callback_spotify spotify_grants (Some ''code1'') (Some ''s1'') None fresh_state)) = 200"
proof -
  have reply: "outcome (spotify_grants (requests fresh_state) (TokenExchangeRequest ''code1''))
     = Response 200
        (no_data\<lparr>access_token := Some ''T1'', refresh_token := Some ''R1'', expires_in := Some 3600\<rparr>)"
    by (simp add: spotify_grants_def)
  have success: "ok 200" by (simp add: ok_def)
  have err: "\<not> truthy None" by (simp add: truthy_def)
  have ne: "''code1'' \<noteq> []" "''s1'' \<noteq> []" by simp_all
  have exp: "expires_in (no_data\<lparr>access_token := Some ''T1'', refresh_token := Some ''R1'',
       expires_in := Some 3600\<rparr>) = Some 3600"
    by simp
  have clock: "1030 = now fresh_state
      + int (elapsed (spotify_grants (requests fresh_state) (TokenExchangeRequest ''code1'')))"
    by (simp add: fresh_state_def spotify_grants_def)
  have range: "safe_integer 1030" "safe_integer (3600 * 1000)" "safe_integer (1030 + 3600 * 1000)"
    by (simp_all add: safe_integer_def)
  from callback_stores_exchanged_tokens
         [where sp = spotify_grants and w = fresh_state and t = 1030,
          OF refl ne(1) refl ne(2) err reply success exp clock range]
  show ?thesis
    by (simp add: no_data_def)
qed

section \<open>Destroying a session\<close>

lemma cleanupSession_maps:
  "transports (cleanupSession sessionId w) = (transports w)(sessionId := None)"
  "sessionTokens (cleanupSession sessionId w) = (sessionTokens w)(sessionId := None)"
  "now (cleanupSession sessionId w) = now w"
  "requests (cleanupSession sessionId w) = requests w"
  by (auto simp: cleanupSession_def Let_def split: option.splits)

lemma cleanupSession_eq:
  "cleanupSession sessionId w =
     w\<lparr>transports := (transports w)(sessionId := None),
       sessionTokens := (sessionTokens w)(sessionId := None)\<rparr>"
  by (cases "transports w sessionId") (simp_all add: cleanupSession_def Let_def fun_upd_idem)

lemma cleanupSession_idem:
  "cleanupSession sessionId (cleanupSession sessionId w) = cleanupSession sessionId w"
  by (simp add: cleanupSession_eq)

text \<open>Sessions other than the one destroyed keep their transport and their record.\<close>

lemma cleanupSession_others:
  "other \<noteq> sessionId \<Longrightarrow>
   transports (cleanupSession sessionId w) other = transports w other
   \<and> sessionTokens (cleanupSession sessionId w) other = sessionTokens w other"
  by (simp add: cleanupSession_maps)

lemma onclose_eq:
  "transport_sessionId t = Some sessionId \<Longrightarrow> sessionId \<noteq> [] \<Longrightarrow>
   onclose t w = cleanupSession sessionId w"
  by (simp add: onclose_def truthy_def template_def)

lemma cleanupSession_no_orphans:
  "no_orphaned_credentials w \<Longrightarrow> no_orphaned_credentials (cleanupSession sessionId w)"
  by (auto simp: no_orphaned_credentials_def cleanupSession_maps)

lemma destroy_no_orphans:
  "no_orphaned_credentials w \<Longrightarrow> no_orphaned_credentials (destroy d w)"
  by (cases d) (simp_all add: cleanupSession_no_orphans onclose_def)

lemma destroy_all_no_orphans:
  "no_orphaned_credentials w \<Longrightarrow> no_orphaned_credentials (destroy_all ds w)"
  by (induction ds arbitrary: w) (simp_all add: destroy_no_orphans)

text \<open>
  The invariant is one of destruction. The OAuth callback stores a record under whatever
  session id its \<open>state\<close> parameter names, with or without a transport.
\<close>

lemma callback_stores_without_transport:
  "sessionTokens (snd (callback_spotify spotify_grants (Some ''code1'') (Some ''s1'') None fresh_state))
     ''s1'' \<noteq> None
   \<and> transports (snd (callback_spotify spotify_grants (Some ''code1'') (Some ''s1'') None fresh_state))
     ''s1'' = None"
  by (simp add: callback_spotify_def truthy_def template_def exchangeCodeForTokens_def fetch_def
        spotify_grants_def ok_def fresh_state_def)

text \<open>
  Claim C5. Let \<open>t\<close> be the transport of session \<open>sessionId\<close>. After
  \<open>cleanupSession sessionId\<close>, and after the close notification of \<open>t\<close>, the session has
  neither a transport in the registry nor a Token Record, and \<open>getValidAccessToken\<close> for it
  returns \<open>null\<close>. Destroying twice, by either path in either order, gives the state of
  destroying once. From a state where every Token Record has a transport, any sequence of
  destructions leads to such a state. The DELETE handler, when the transport has answered,
  ends in the state \<open>cleanupSession\<close> gives.
\<close>

theorem destroying_a_session_removes_transport_and_tokens:
  assumes t: "transport_sessionId t = Some sessionId" and ne: "sessionId \<noteq> []"
  shows "transports (cleanupSession sessionId w) sessionId = None
       \<and> sessionTokens (cleanupSession sessionId w) sessionId = None
       \<and> transports (onclose t w) sessionId = None
       \<and> sessionTokens (onclose t w) sessionId = None
       \<and> getValidAccessToken sp sessionId (cleanupSession sessionId w) = (None, cleanupSession sessionId w)
       \<and> getValidAccessToken sp sessionId (onclose t w) = (None, onclose t w)
       \<and> cleanupSession sessionId (cleanupSession sessionId w) = cleanupSession sessionId w
       \<and> onclose t (onclose t w) = onclose t w
       \<and> cleanupSession sessionId (onclose t w) = onclose t w
       \<and> onclose t (cleanupSession sessionId w) = cleanupSession sessionId w
       \<and> (no_orphaned_credentials w \<longrightarrow> no_orphaned_credentials (destroy_all ds w))
       \<and> (transports w sessionId = Some t \<and> handleRequest k t req w = (Responded r, w')
            \<and> mcp_session_id req = Some sessionId \<longrightarrow>
          delete_mcp k req w = (Some r, cleanupSession sessionId w'))"
proof -
  have gone: "sessionTokens (cleanupSession sessionId w) sessionId = None"
    by (simp add: cleanupSession_maps)
  have del: "transports w sessionId = Some t \<and> handleRequest k t req w = (Responded r, w')
            \<and> mcp_session_id req = Some sessionId \<longrightarrow>
          delete_mcp k req w = (Some r, cleanupSession sessionId w')"
    using ne by (simp add: delete_mcp_def truthy_def template_def)
  show ?thesis
    using getValidAccessToken_absent [OF gone, of sp] del
    by (simp add: onclose_eq [OF t ne] cleanupSession_maps cleanupSession_idem
          destroy_all_no_orphans)
qed

theorem destroying_a_session_removes_transport_and_tokens_witness:
  "transports valid_state ''s1'' = Some \<lparr>transport_sessionId = Some ''s1''\<rparr>
   \<and> sessionTokens valid_state ''s1'' = Some valid_record
   \<and> no_orphaned_credentials valid_state
   \<and> transports (cleanupSession ''s1'' valid_state) ''s1'' = None
   \<and> sessionTokens (cleanupSession ''s1'' valid_state) ''s1'' = None
   \<and> transports (onclose \<lparr>transport_sessionId = Some ''s1''\<rparr> valid_state) ''s1'' = None
   \<and> sessionTokens (onclose \<lparr>transport_sessionId = Some ''s1''\<rparr> valid_state) ''s1'' = None
   \<and> fst (getValidAccessToken spotify_unreachable ''s1'' (cleanupSession ''s1'' valid_state)) = None
   \<and> no_orphaned_credentials
        (destroy_all [CloseNotification \<lparr>transport_sessionId = Some ''s1''\<rparr>, ExplicitTermination ''s1'']
           valid_state)
   \<and> delete_mcp sdk_closes \<lparr>mcp_session_id = Some ''s1'', is_initialize = False\<rparr> valid_state
       = (Some \<lparr>status_code = 200, body = PlainText []\<rparr>, cleanupSession ''s1'' valid_state)"
proof -
  have t: "transport_sessionId \<lparr>transport_sessionId = Some ''s1''\<rparr> = Some ''s1''" by simp
  have ne: "''s1'' \<noteq> []" by simp
  have inv: "no_orphaned_credentials valid_state"
    by (simp add: no_orphaned_credentials_def valid_state_def)
  have here: "transports valid_state ''s1'' = Some \<lparr>transport_sessionId = Some ''s1''\<rparr>"
    "sessionTokens valid_state ''s1'' = Some valid_record"
    by (simp_all add: valid_state_def)
  have run: "handleRequest sdk_closes \<lparr>transport_sessionId = Some ''s1''\<rparr>
               \<lparr>mcp_session_id = Some ''s1'', is_initialize = False\<rparr> valid_state
             = (Responded \<lparr>status_code = 200, body = PlainText []\<rparr>, cleanupSession ''s1'' valid_state)"
    by (simp add: sdk_closes_def onclose_eq)
  from destroying_a_session_removes_transport_and_tokens
         [OF t ne, of valid_state spotify_unreachable
            "[CloseNotification \<lparr>transport_sessionId = Some ''s1''\<rparr>, ExplicitTermination ''s1'']"
            sdk_closes "\<lparr>mcp_session_id = Some ''s1'', is_initialize = False\<rparr>"
            "\<lparr>status_code = 200, body = PlainText []\<rparr>" "cleanupSession ''s1'' valid_state"]
       inv run here
  show ?thesis
    by (simp add: onclose_eq cleanupSession_idem)
qed

section \<open>The authentication prompt of search-tracks\<close>

lemma form_urlencode_s1: "form_urlencode ''s1'' = ''s1''"
  by (simp add: form_urlencode_def form_encode_char_def form_keeps_def)

lemma getSpotifyAuthUrl_state: "includes_str (getSpotifyAuthUrl cfg ''s1'') ''state=s1''"
proof -
  have "getSpotifyAuthUrl cfg ''s1'' =
          (''https://accounts.spotify.com/authorize?''
           @ ''response_type='' @ form_urlencode ''code''
           @ ''&client_id='' @ form_urlencode (SPOTIFY_CLIENT_ID cfg)
           @ ''&scope='' @ form_urlencode
               ''user-read-private user-read-email playlist-read-private playlist-modify-private playlist-modify-public''
           @ ''&redirect_uri='' @ form_urlencode (SPOTIFY_REDIRECT_URI cfg)
           @ ''&'') @ ''state=s1''"
    by (simp add: getSpotifyAuthUrl_def form_urlencode_s1)
  then show ?thesis
    by (simp only: includes_str_end)
qed

text \<open>
  Claim C8, as the code has it. Session \<open>s1\<close> has no Token Record and calls
  \<open>search-tracks\<close> with query \<open>test\<close> and limit 10. In both variants the result is not
  marked as an error. In the session-scoped server its text contains the link to the
  server's own landing page, \<open>/auth?session=s1\<close> under the base URL, and that page links to
  the authorization URL, which contains \<open>state=s1\<close>. In the other variant the text contains
  the authorization URL itself, and so \<open>state=s1\<close>.
\<close>

theorem prompt_links_to_authorization:
  assumes "sessionTokens w ''s1'' = None"
  shows "search_tracks cfg sp ''s1'' (Some ''test'') (Some 10) w
           = (ToolResult (auth_required_result cfg ''s1''), w)
       \<and> \<not> isError (auth_required_result cfg ''s1'')
       \<and> includes_str (result_text (auth_required_result cfg ''s1'')) (baseUrl cfg @ ''/auth?session=s1'')
       \<and> get_auth cfg (Some ''s1'')
           = \<lparr>status_code = 200, body = AuthLandingPage (getSpotifyAuthUrl cfg ''s1'')\<rparr>
       \<and> includes_str (getSpotifyAuthUrl cfg ''s1'') ''state=s1''
       \<and> search_tracks_001 cfg sp ''s1'' (Some ''test'') (Some 10) w
           = (ToolResult (auth_required_result_001 cfg ''s1''), w)
       \<and> \<not> isError (auth_required_result_001 cfg ''s1'')
       \<and> includes_str (result_text (auth_required_result_001 cfg ''s1'')) (getSpotifyAuthUrl cfg ''s1'')
       \<and> includes_str (result_text (auth_required_result_001 cfg ''s1'')) ''state=s1''"
proof -
  have schema: "search_tracks_inputSchema (Some ''test'') (Some 10) = Some (''test'', 10)"
    by (simp add: search_tracks_inputSchema_def)
  have t0: "result_text (auth_required_result cfg ''s1'')
      = (emoji_musical_note @ '' **Spotify Authentication Required**'' @ nl @ nl
         @ ''To use Spotify features, please visit:'' @ nl @ nl)
        @ (baseUrl cfg @ ''/auth?session=s1'')
        @ (nl @ nl
         @ ''This will redirect you to connect your Spotify account. After authentication, return here and try your request again.'')"
    by (simp add: auth_required_result_def result_text_def authUrl_def)
  have link0: "includes_str (result_text (auth_required_result cfg ''s1'')) (baseUrl cfg @ ''/auth?session=s1'')"
    by (simp only: t0 includes_str_inside)
  have t1: "result_text (auth_required_result_001 cfg ''s1'')
      = (''Please authenticate with Spotify by visiting this link:'' @ nl)
        @ getSpotifyAuthUrl cfg ''s1''
        @ (nl @ nl @ ''After authentication, come back and try again.'')"
    by (simp add: auth_required_result_001_def result_text_def)
  have link1: "includes_str (result_text (auth_required_result_001 cfg ''s1'')) (getSpotifyAuthUrl cfg ''s1'')"
    by (simp only: t1 includes_str_inside)
  have state1: "includes_str (result_text (auth_required_result_001 cfg ''s1'')) ''state=s1''"
    by (simp only: t1 includes_str_trans [OF getSpotifyAuthUrl_state])
  have page: "get_auth cfg (Some ''s1'')
           = \<lparr>status_code = 200, body = AuthLandingPage (getSpotifyAuthUrl cfg ''s1'')\<rparr>"
    by (simp add: get_auth_def truthy_def template_def)
  show ?thesis
    using assms schema link0 link1 state1 page getSpotifyAuthUrl_state [of cfg]
    by (simp add: search_tracks_def search_tracks_001_def handleSpotifyTool_absent
          handleSpotifyTool_001_absent auth_required_result_def auth_required_result_001_def)
qed

theorem prompt_links_to_authorization_witness:
  "sessionTokens fresh_state ''s1'' = None
   \<and> search_tracks example_config spotify_unreachable ''s1'' (Some ''test'') (Some 10) fresh_state
       = (ToolResult (auth_required_result example_config ''s1''), fresh_state)
   \<and> includes_str (result_text (auth_required_result example_config ''s1''))
        ''http://localhost:8080/auth?session=s1''
   \<and> search_tracks_001 example_config spotify_unreachable ''s1'' (Some ''test'') (Some 10) fresh_state
       = (ToolResult (auth_required_result_001 example_config ''s1''), fresh_state)
   \<and> includes_str (result_text (auth_required_result_001 example_config ''s1'')) ''state=s1''"
proof -
  have absent: "sessionTokens fresh_state ''s1'' = None"
    by (simp add: fresh_state_def)
  have base: "baseUrl example_config = ''http://localhost:8080''"
    by (simp add: baseUrl_def example_config_def js_or_def truthy_def template_def)
  from prompt_links_to_authorization [OF absent, of example_config spotify_unreachable] absent base
  show ?thesis by simp
qed

text \<open>
  In the session-scoped server the text of the prompt has no \<open>state=s1\<close>: its link is
  \<open>http://localhost:8080/auth?session=s1\<close>.
\<close>

theorem prompt_of_session_server_lacks_state:
  "search_tracks example_config spotify_unreachable ''s1'' (Some ''test'') (Some 10) fresh_state
     = (ToolResult (auth_required_result example_config ''s1''), fresh_state)
   \<and> \<not> includes_str (result_text (auth_required_result example_config ''s1'')) ''state=s1''"
proof -
  have "sessionTokens fresh_state ''s1'' = None"
    by (simp add: fresh_state_def)
  then have run: "search_tracks example_config spotify_unreachable ''s1'' (Some ''test'') (Some 10) fresh_state
     = (ToolResult (auth_required_result example_config ''s1''), fresh_state)"
    by (simp add: search_tracks_def search_tracks_inputSchema_def handleSpotifyTool_absent)
  have "\<not> includes_str (result_text (auth_required_result example_config ''s1'')) ''state=s1''"
    by (simp add: result_text_def auth_required_result_def example_config_def authUrl_def baseUrl_def
          js_or_def truthy_def template_def nl_def emoji_musical_note_def)
  with run show ?thesis by simp
qed

section \<open>The arguments of get-recommendations\<close>

text \<open>
  Claim C9. The schema of \<open>get-recommendations\<close> rejects a seed list longer than 5 and a
  limit below 1 or above 100; it accepts up to 5 seeds with a limit from 1 to 100, and takes
  20 for a limit that is left out. Rejected arguments do not reach the tool. For an
  authenticated call (token resolution gives a token) with an empty seed list and a valid
  limit, the result is an error result, and the state returned is the one token resolution
  left: no recommendations request is sent.
\<close>

theorem get_recommendations_requirements:
  "(5 < length seeds \<longrightarrow> get_recommendations_inputSchema (Some seeds) limit = None)
   \<and> (l < 1 \<or> 100 < l \<longrightarrow> get_recommendations_inputSchema (Some seeds) (Some l) = None)
   \<and> (length seeds \<le> 5 \<longrightarrow> get_recommendations_inputSchema (Some seeds) None = Some (seeds, 20))
   \<and> (length seeds \<le> 5 \<and> 1 \<le> l \<and> l \<le> 100 \<longrightarrow>
        get_recommendations_inputSchema (Some seeds) (Some l) = Some (seeds, l))
   \<and> (get_recommendations_inputSchema (Some seeds) limit = None \<longrightarrow>
        get_recommendations cfg sp sessionId (Some seeds) limit w = (InvalidArguments, w))
   \<and> (getValidAccessToken sp sessionId w = (Some token, w') \<and> token \<noteq> []
        \<and> (limit = None \<or> limit = Some l \<and> 1 \<le> l \<and> l \<le> 100) \<longrightarrow>
        get_recommendations cfg sp sessionId (Some []) limit w
          = (ToolResult (api_error_result (Error ''At least one seed track is required'')), w')
        \<and> isError (api_error_result (Error ''At least one seed track is required''))
        \<and> filter is_recommendations_request
              (requests (snd (get_recommendations cfg sp sessionId (Some []) limit w)))
            = filter is_recommendations_request (requests w))"
proof -
  have schema:
    "(5 < length seeds \<longrightarrow> get_recommendations_inputSchema (Some seeds) limit = None)
     \<and> (l < 1 \<or> 100 < l \<longrightarrow> get_recommendations_inputSchema (Some seeds) (Some l) = None)
     \<and> (length seeds \<le> 5 \<longrightarrow> get_recommendations_inputSchema (Some seeds) None = Some (seeds, 20))
     \<and> (length seeds \<le> 5 \<and> 1 \<le> l \<and> l \<le> 100 \<longrightarrow>
          get_recommendations_inputSchema (Some seeds) (Some l) = Some (seeds, l))"
    by (auto simp: get_recommendations_inputSchema_def)
  have rejected: "get_recommendations_inputSchema (Some seeds) limit = None \<longrightarrow>
        get_recommendations cfg sp sessionId (Some seeds) limit w = (InvalidArguments, w)"
    by (simp add: get_recommendations_def)
  have empty: "get_recommendations cfg sp sessionId (Some []) limit w
          = (ToolResult (api_error_result (Error ''At least one seed track is required'')), w')
        \<and> isError (api_error_result (Error ''At least one seed track is required''))
        \<and> filter is_recommendations_request
              (requests (snd (get_recommendations cfg sp sessionId (Some []) limit w)))
            = filter is_recommendations_request (requests w)"
    if resolved: "getValidAccessToken sp sessionId w = (Some token, w')" and ne: "token \<noteq> []"
      and lim: "limit = None \<or> limit = Some l \<and> 1 \<le> l \<and> l \<le> 100"
  proof -
    obtain l' where parsed: "get_recommendations_inputSchema (Some []) limit = Some ([], l')"
      using lim by (auto simp: get_recommendations_inputSchema_def)
    have raised: "get_recommendations_apiCall sp [] l' token w'
        = (Inl (Error ''At least one seed track is required''), w')"
      by (simp add: get_recommendations_apiCall_def)
    have other: "response_status (Error ''At least one seed track is required'') \<noteq> Some 401"
      by (simp add: Error_def)
    have run: "handleSpotifyTool cfg sp sessionId (get_recommendations_apiCall sp [] l') w
        = (api_error_result (Error ''At least one seed track is required''), w')"
      using handleSpotifyTool_catch
              [where apiCall = "get_recommendations_apiCall sp [] l'" and cfg = cfg,
               OF resolved ne raised] other
      by simp
    have log: "filter is_recommendations_request (requests w')
        = filter is_recommendations_request (requests w)"
      using getValidAccessToken_log [of sp sessionId w] resolved by simp
    show ?thesis
      using parsed run log by (simp add: get_recommendations_def api_error_result_def)
  qed
  show ?thesis
    using schema rejected empty by blast
qed

theorem get_recommendations_requirements_witness:
  "get_recommendations_inputSchema (Some six_seeds) (Some 20) = None
   \<and> get_recommendations_inputSchema (Some [''a'']) (Some 101) = None
   \<and> get_recommendations_inputSchema (Some [''a'']) (Some 0) = None
   \<and> get_recommendations_inputSchema (Some [''a'']) None = Some ([''a''], 20)
   \<and> get_recommendations_inputSchema (Some [''a'']) (Some 100) = Some ([''a''], 100)
   \<and> get_recommendations example_config spotify_unreachable ''s1'' (Some six_seeds) (Some 20) valid_state
       = (InvalidArguments, valid_state)
   \<and> get_recommendations example_config spotify_unreachable ''s1'' (Some []) None valid_state
       = (ToolResult (api_error_result (Error ''At least one seed track is required'')), valid_state)
   \<and> requests (snd (get_recommendations example_config spotify_unreachable ''s1'' (Some []) None
         valid_state)) = []"
proof -
  have resolved: "getValidAccessToken spotify_unreachable ''s1'' valid_state = (Some ''T1'', valid_state)"
    by (simp add: getValidAccessToken_def valid_state_def valid_record_def isTokenExpired_def)
  have log: "requests valid_state = []"
    by (simp add: valid_state_def)
  note th = get_recommendations_requirements
  from th [of six_seeds "Some 20" 101 example_config spotify_unreachable "''s1''" valid_state "''T1''" valid_state]
       th [of "[''a'']" None 101 example_config spotify_unreachable "''s1''" valid_state "''T1''" valid_state]
       th [of "[''a'']" None 0 example_config spotify_unreachable "''s1''" valid_state "''T1''" valid_state]
       th [of "[''a'']" None 100 example_config spotify_unreachable "''s1''" valid_state "''T1''" valid_state]
       resolved log
  show ?thesis
    by (simp add: six_seeds_def)
qed

section \<open>Requests without a valid session\<close>

text \<open>
  Claim C10. A POST to \<open>/mcp\<close> whose \<open>mcp-session-id\<close> is a session id that the registry
  does not have, or that has no session id (the header is missing or empty) and is not an
  initialization request, gets the 400 response with the JSON-RPC error, and the state is
  unchanged: no session, transport or Token Record is created.
\<close>

theorem post_without_valid_session_rejected:
  assumes "(\<exists>sessionId. mcp_session_id req = Some sessionId \<and> sessionId \<noteq> []
              \<and> transports w sessionId = None)
         \<or> ((mcp_session_id req = None \<or> mcp_session_id req = Some []) \<and> \<not> is_initialize req)"
  shows "post_mcp k newSessionId req w = (bad_request, w)
       \<and> status_code bad_request = 400
       \<and> body bad_request = JsonRpcError (- 32000) ''Bad Request: No valid session ID provided''"
  using assms
  by (auto simp: post_mcp_def Let_def truthy_def template_def bad_request_def)

theorem post_without_valid_session_rejected_witness:
  "post_mcp sdk_closes ''new-id'' \<lparr>mcp_session_id = Some ''s9'', is_initialize = True\<rparr> valid_state
     = (bad_request, valid_state)
   \<and> post_mcp sdk_closes ''new-id'' \<lparr>mcp_session_id = None, is_initialize = False\<rparr> valid_state
     = (bad_request, valid_state)
   \<and> status_code bad_request = 400"
proof -
  have unknown: "(\<exists>sessionId. mcp_session_id \<lparr>mcp_session_id = Some ''s9'', is_initialize = True\<rparr> = Some sessionId
        \<and> sessionId \<noteq> [] \<and> transports valid_state sessionId = None)
      \<or> ((mcp_session_id \<lparr>mcp_session_id = Some ''s9'', is_initialize = True\<rparr> = None
           \<or> mcp_session_id \<lparr>mcp_session_id = Some ''s9'', is_initialize = True\<rparr> = Some [])
          \<and> \<not> is_initialize \<lparr>mcp_session_id = Some ''s9'', is_initialize = True\<rparr>)"
    by (simp add: valid_state_def)
  have missing: "(\<exists>sessionId. mcp_session_id \<lparr>mcp_session_id = None, is_initialize = False\<rparr> = Some sessionId
        \<and> sessionId \<noteq> [] \<and> transports valid_state sessionId = None)
      \<or> ((mcp_session_id \<lparr>mcp_session_id = None, is_initialize = False\<rparr> = None
           \<or> mcp_session_id \<lparr>mcp_session_id = None, is_initialize = False\<rparr> = Some [])
          \<and> \<not> is_initialize \<lparr>mcp_session_id = None, is_initialize = False\<rparr>)"
    by simp
  from post_without_valid_session_rejected [OF unknown, of sdk_closes "''new-id''"]
       post_without_valid_session_rejected [OF missing, of sdk_closes "''new-id''"]
  show ?thesis by simp
qed

text \<open>
  An initialization request without a session id is the one that creates a session: the
  new transport is registered under the generated id.
\<close>

lemma post_initialize_registers_transport:
  assumes "mcp_session_id req = None" and "is_initialize req" and "connect_error k = None"
  shows "post_mcp k newSessionId req w =
           forward_request k \<lparr>transport_sessionId = None\<rparr> req
             (w\<lparr>transports := (transports w)(newSessionId \<mapsto> \<lparr>transport_sessionId = None\<rparr>)\<rparr>)"
  using assms by (simp add: post_mcp_def Let_def truthy_def)

end
